theory Spec2Isabelle
  imports Main
begin

section \<open>Python values, errors and effects\<close>

text \<open>
  The functions of \<^verbatim>\<open>_mounted_data_factories.py\<close> and
  \<^verbatim>\<open>UpdateDirectLakeModelLakehouseConnection.py\<close> handle decoded JSON: dictionaries,
  lists, strings and \<^verbatim>\<open>None\<close>. A dictionary is an association list read with
  \<open>map_of\<close>; numbers are integers.
\<close>

datatype pyval =
    PNone
  | PBool bool
  | PInt int
  | PStr string
  | PList "pyval list"
  | PDict "(string \<times> pyval) list"

text \<open>Every \<^verbatim>\<open>raise\<close> of the source and of its collaborators is a value.\<close>

datatype error =
    StopIteration
  | KeyError string
  | TypeError string
  | AttributeError string
  | NotFound string
  | RemoteFailure string
  | DecodeError string

text \<open>
  A table as pandas holds it: the column names and the rows, each row giving a cell for a
  column name.
\<close>

record dataframe =
  columns :: "string list"
  rows :: "(string \<times> pyval) list list"

text \<open>The keyword arguments of one \<^verbatim>\<open>_base_api\<close> call, as the call site passes them.\<close>

type_synonym request = "(string \<times> pyval) list"

text \<open>
  What leaves the function: every call of a collaborator, every printed line, and the steps
  of the scoped connection to a semantic model. \<open>SetExpression\<close> marks that the assignment
  of line 64 of the remap function is executed.
\<close>

datatype event =
    ResolveWorkspaceNameAndId "string option"
  | ResolveItemId string string "string option"
  | ResolveItemNameAndId string string "string option"
  | BaseApi request
  | DeleteItem string string "string option"
  | PrintSuccess string string string
  | GetWorkspaceId
  | ResolveWorkspaceName string
  | ResolveWorkspaceId string
  | GetLakehouseId
  | ResolveLakehouseName string string
  | ListItems string string
  | ListPartitions string string
  | Print string
  | Connect string bool string
  | GetSharedExpression string string
  | SetExpression string pyval
  | SaveChanges string string
  | Release string string

text \<open>The named expressions of a semantic model, as the object model shows them.\<close>

record tom_model =
  expressions :: "(string \<times> pyval) list"

text \<open>
  The world a call runs in: the log of events so far, and the semantic models the service
  holds, keyed by workspace name and model name.
\<close>

record world =
  log :: "event list"
  models :: "((string \<times> string) \<times> tom_model) list"

text \<open>
  The collaborators that are not part of the sources: the \<^verbatim>\<open>sempy.fabric\<close> client, the
  helper functions of the package, \<^verbatim>\<open>json.loads\<close>. Each is a parameter; a result
  \<open>Inl e\<close> is the exception it raises.
\<close>

record env =
  resolve_workspace_name_and_id :: "string option \<Rightarrow> error + (string \<times> string)"
  resolve_item_id :: "string \<Rightarrow> string \<Rightarrow> string option \<Rightarrow> error + string"
  resolve_item_name_and_id :: "string \<Rightarrow> string \<Rightarrow> string option \<Rightarrow> error + (string \<times> string)"
  base_api :: "request \<Rightarrow> error + pyval"
  decode_b64 :: "pyval \<Rightarrow> error + string"
  json_loads :: "string \<Rightarrow> error + pyval"
  astype :: "string \<Rightarrow> pyval \<Rightarrow> pyval"
  frame_value :: "pyval \<Rightarrow> error + pyval"
  delete_item :: "string \<Rightarrow> string \<Rightarrow> string option \<Rightarrow> error + unit"
  get_workspace_id :: "error + string"
  resolve_workspace_name :: "string \<Rightarrow> error + string"
  resolve_workspace_id :: "string \<Rightarrow> error + string"
  get_lakehouse_id :: "error + string"
  resolve_lakehouse_name :: "string \<Rightarrow> string \<Rightarrow> error + string"
  list_items :: "string \<Rightarrow> string \<Rightarrow> error + dataframe"
  list_partitions :: "string \<Rightarrow> string \<Rightarrow> error + dataframe"
  get_shared_expression :: "string \<Rightarrow> string \<Rightarrow> error + pyval"
  save_changes :: "string \<Rightarrow> string \<Rightarrow> tom_model \<Rightarrow> error option"

subsection \<open>Sequencing with exceptions\<close>

type_synonym 'a exec = "world \<Rightarrow> (error + 'a) \<times> world"

definition ret :: "'a \<Rightarrow> 'a exec" where
  "ret x = (\<lambda>w. (Inr x, w))"

definition raise :: "error \<Rightarrow> 'a exec" where
  "raise e = (\<lambda>w. (Inl e, w))"

definition bind_exec :: "'a exec \<Rightarrow> ('a \<Rightarrow> 'b exec) \<Rightarrow> 'b exec" where
  "bind_exec m f = (\<lambda>w. case m w of
       (Inl e, w') \<Rightarrow> (Inl e, w')
     | (Inr x, w') \<Rightarrow> f x w')"

definition emit :: "event \<Rightarrow> unit exec" where
  "emit ev = (\<lambda>w. (Inr (), w\<lparr>log := log w @ [ev]\<rparr>))"

definition lift :: "error + 'a \<Rightarrow> 'a exec" where
  "lift r = (\<lambda>w. (r, w))"

text \<open>A call of a collaborator: it is logged, then it returns or raises.\<close>

definition call :: "event \<Rightarrow> error + 'a \<Rightarrow> 'a exec" where
  "call ev r = bind_exec (emit ev) (\<lambda>_. lift r)"

subsection \<open>Python operations on values\<close>

text \<open>\<^verbatim>\<open>d.get(k, default)\<close>: only a dictionary has the method.\<close>

definition py_get :: "pyval \<Rightarrow> string \<Rightarrow> pyval \<Rightarrow> error + pyval" where
  "py_get d k dflt = (case d of
       PDict kv \<Rightarrow> (case map_of kv k of None \<Rightarrow> Inr dflt | Some v \<Rightarrow> Inr v)
     | _ \<Rightarrow> Inl (AttributeError ''get''))"

text \<open>\<^verbatim>\<open>d[k]\<close> for a string key.\<close>

definition py_subscript :: "pyval \<Rightarrow> string \<Rightarrow> error + pyval" where
  "py_subscript d k = (case d of
       PDict kv \<Rightarrow> (case map_of kv k of None \<Rightarrow> Inl (KeyError k) | Some v \<Rightarrow> Inr v)
     | _ \<Rightarrow> Inl (TypeError ''subscript''))"

text \<open>The elements a \<^verbatim>\<open>for\<close> loop visits.\<close>

definition py_iter :: "pyval \<Rightarrow> error + pyval list" where
  "py_iter v = (case v of
       PList xs \<Rightarrow> Inr xs
     | PDict kv \<Rightarrow> Inr (map PStr (remdups (map fst kv)))
     | PStr s \<Rightarrow> Inr (map (\<lambda>c. PStr [c]) s)
     | _ \<Rightarrow> Inl (TypeError ''not iterable''))"

section \<open>Mounted data factories\<close>

subsection \<open>Dataframe helpers\<close>

text \<open>
  Modelled from the spec: \<^verbatim>\<open>_create_dataframe\<close> of \<^verbatim>\<open>sempy_labs._helper_functions\<close>
  is not among the sources. It is a dataframe construction helper: a table with the
  columns of the column map and no rows.
\<close>

definition create_dataframe :: "(string \<times> string) list \<Rightarrow> dataframe" where
  "create_dataframe column_map = \<lparr>columns = map fst column_map, rows = []\<rparr>"

text \<open>
  Modelled from the spec: \<^verbatim>\<open>_update_dataframe_datatypes\<close> of
  \<^verbatim>\<open>sempy_labs._helper_functions\<close> is not among the sources. It is a formatting helper:
  it retypes the cells of the columns the column map names (the conversion itself is the
  parameter \<open>astype\<close>) and neither filters, sorts nor deduplicates rows.
\<close>

definition retype_row ::
  "env \<Rightarrow> (string \<times> string) list \<Rightarrow> (string \<times> pyval) list \<Rightarrow> (string \<times> pyval) list" where
  "retype_row env column_map row =
     map (\<lambda>(c, v). (c, case map_of column_map c of None \<Rightarrow> v | Some t \<Rightarrow> astype env t v)) row"

definition update_dataframe_datatypes ::
  "env \<Rightarrow> dataframe \<Rightarrow> (string \<times> string) list \<Rightarrow> dataframe" where
  "update_dataframe_datatypes env df column_map =
     df\<lparr>rows := map (retype_row env column_map) (rows df)\<rparr>"

text \<open>
  \<^verbatim>\<open>pd.DataFrame(new_data, index=[0])\<close>: a scalar value (a string, a number, a boolean,
  \<^verbatim>\<open>None\<close>) fills the cell of the one row. A list or a dictionary is not taken as a
  cell: pandas aligns it with the index, and may raise; what it makes of such a value is
  the parameter \<open>frame_value\<close>.
\<close>

definition is_scalar :: "pyval \<Rightarrow> bool" where
  "is_scalar v = (case v of PList _ \<Rightarrow> False | PDict _ \<Rightarrow> False | _ \<Rightarrow> True)"

fun one_row_frame :: "env \<Rightarrow> (string \<times> pyval) list \<Rightarrow> error + (string \<times> pyval) list" where
  "one_row_frame env [] = Inr []"
| "one_row_frame env ((c, v) # rest) =
     (case (if is_scalar v then Inr v else frame_value env v) of
        Inl e \<Rightarrow> Inl e
      | Inr x \<Rightarrow>
          (case one_row_frame env rest of
             Inl e \<Rightarrow> Inl e
           | Inr r \<Rightarrow> Inr ((c, x) # r)))"

text \<open>
  \<^verbatim>\<open>pd.concat([df, one_row], ignore_index=True)\<close>: the one-row table is appended below; a
  column the table does not have yet is added on the right.
\<close>

definition concat_row :: "dataframe \<Rightarrow> (string \<times> pyval) list \<Rightarrow> dataframe" where
  "concat_row df new_data =
     \<lparr>columns = columns df @ filter (\<lambda>c. c \<notin> set (columns df)) (map fst new_data),
      rows = rows df @ [new_data]\<rparr>"

subsection \<open>list_mounted_data_factories\<close>

definition columns_mdf :: "(string \<times> string) list" where
  "columns_mdf =
     [(''Mounted Data Factory Name'', ''str''),
      (''Mounted Data Factory Id'', ''str''),
      (''Description'', ''str'')]"

text \<open>Lines 56 to 60: the dictionary built from one item record.\<close>

definition new_data :: "pyval \<Rightarrow> error + (string \<times> pyval) list" where
  "new_data v =
     (case py_get v ''displayName'' PNone of Inl e \<Rightarrow> Inl e | Inr n \<Rightarrow>
     (case py_get v ''id'' PNone of Inl e \<Rightarrow> Inl e | Inr i \<Rightarrow>
     (case py_get v ''description'' PNone of Inl e \<Rightarrow> Inl e | Inr d \<Rightarrow>
        Inr [(''Mounted Data Factory Name'', n),
             (''Mounted Data Factory Id'', i),
             (''Description'', d)])))"

text \<open>Lines 55 to 62: the loop over the records of one page.\<close>

fun loop_values :: "env \<Rightarrow> dataframe \<Rightarrow> pyval list \<Rightarrow> error + dataframe" where
  "loop_values env df [] = Inr df"
| "loop_values env df (v # vs) =
     (case new_data v of
        Inl e \<Rightarrow> Inl e
      | Inr nd \<Rightarrow>
          (case one_row_frame env nd of
             Inl e \<Rightarrow> Inl e
           | Inr row \<Rightarrow> loop_values env (concat_row df row) vs))"

text \<open>Line 54: the loop over the pages.\<close>

fun loop_responses :: "env \<Rightarrow> dataframe \<Rightarrow> pyval list \<Rightarrow> error + dataframe" where
  "loop_responses env df [] = Inr df"
| "loop_responses env df (r # rs) =
     (case py_get r ''value'' (PList []) of
        Inl e \<Rightarrow> Inl e
      | Inr vals \<Rightarrow>
          (case py_iter vals of
             Inl e \<Rightarrow> Inl e
           | Inr vs \<Rightarrow>
               (case loop_values env df vs of
                  Inl e \<Rightarrow> Inl e
                | Inr df' \<Rightarrow> loop_responses env df' rs)))"

definition list_request :: "string \<Rightarrow> request" where
  "list_request workspace_id =
     [(''request'', PStr (''/v1/workspaces/'' @ workspace_id @ ''/mountedDataFactories'')),
      (''uses_pagination'', PBool True)]"

definition list_mounted_data_factories :: "env \<Rightarrow> string option \<Rightarrow> dataframe exec" where
  "list_mounted_data_factories env workspace =
     bind_exec (call (ResolveWorkspaceNameAndId workspace)
                  (resolve_workspace_name_and_id env workspace))
       (\<lambda>(workspace_name, workspace_id).
     bind_exec (call (BaseApi (list_request workspace_id))
                  (base_api env (list_request workspace_id)))
       (\<lambda>responses.
     bind_exec (lift (py_iter responses))
       (\<lambda>rs.
     bind_exec (lift (loop_responses env (create_dataframe columns_mdf) rs))
       (\<lambda>df. ret (update_dataframe_datatypes env df columns_mdf)))))"

subsection \<open>get_mounted_data_factory_definition\<close>

definition content_path :: string where
  "content_path = ''mountedDataFactory-content.json''"

text \<open>
  Lines 107 to 111: \<^verbatim>\<open>next\<close> of the generator over the parts. The generator stops at the
  first part whose path matches and does not look at the parts after it; when no part
  matches, \<^verbatim>\<open>next\<close> raises \<^verbatim>\<open>StopIteration\<close>.
\<close>

fun next_payload :: "string \<Rightarrow> pyval list \<Rightarrow> error + pyval" where
  "next_payload path [] = Inl StopIteration"
| "next_payload path (p # ps) =
     (case py_get p ''path'' PNone of
        Inl e \<Rightarrow> Inl e
      | Inr v \<Rightarrow> if v = PStr path then py_get p ''payload'' PNone
                 else next_payload path ps)"

text \<open>Lines 105 to 113: from the returned bundle to the parsed content.\<close>

definition definition_content :: "env \<Rightarrow> pyval \<Rightarrow> error + pyval" where
  "definition_content env result =
     (case py_subscript result ''definition'' of Inl e \<Rightarrow> Inl e | Inr d \<Rightarrow>
     (case py_subscript d ''parts'' of Inl e \<Rightarrow> Inl e | Inr parts \<Rightarrow>
     (case py_iter parts of Inl e \<Rightarrow> Inl e | Inr ps \<Rightarrow>
     (case next_payload content_path ps of Inl e \<Rightarrow> Inl e | Inr payload \<Rightarrow>
     (case decode_b64 env payload of Inl e \<Rightarrow> Inl e | Inr s \<Rightarrow>
        json_loads env s)))))"

definition definition_request :: "string \<Rightarrow> string \<Rightarrow> request" where
  "definition_request workspace_id item_id =
     [(''request'', PStr (''/v1/workspaces/'' @ workspace_id @ ''/mountedDataFactories/''
                           @ item_id @ ''/getDefinition'')),
      (''method'', PStr ''post''),
      (''lro_return_json'', PBool True),
      (''status_codes'', PNone)]"

definition get_mounted_data_factory_definition ::
  "env \<Rightarrow> string \<Rightarrow> string option \<Rightarrow> pyval exec" where
  "get_mounted_data_factory_definition env mounted_data_factory workspace =
     bind_exec (call (ResolveWorkspaceNameAndId workspace)
                  (resolve_workspace_name_and_id env workspace))
       (\<lambda>(workspace_name, workspace_id).
     bind_exec (call (ResolveItemId mounted_data_factory ''MountedDataFactory'' workspace)
                  (resolve_item_id env mounted_data_factory ''MountedDataFactory'' workspace))
       (\<lambda>item_id.
     bind_exec (call (BaseApi (definition_request workspace_id item_id))
                  (base_api env (definition_request workspace_id item_id)))
       (\<lambda>result. lift (definition_content env result))))"

subsection \<open>delete_mounted_data_factory\<close>

definition delete_mounted_data_factory :: "env \<Rightarrow> string \<Rightarrow> string option \<Rightarrow> unit exec" where
  "delete_mounted_data_factory env mounted_data_factory workspace =
     bind_exec (call (ResolveItemNameAndId mounted_data_factory ''MountedDataFactory'' workspace)
                  (resolve_item_name_and_id env mounted_data_factory ''MountedDataFactory''
                     workspace))
       (\<lambda>(item_name, item_id).
     bind_exec (call (DeleteItem item_id ''MountedDataFactory'' workspace)
                  (delete_item env item_id ''MountedDataFactory'' workspace))
       (\<lambda>_. emit (PrintSuccess item_name ''Mounted Data Factory'' ''deleted'')))"

subsection \<open>The call sites\<close>

text \<open>
  A call either passes the \<^verbatim>\<open>workspace\<close> argument (\<open>Some ws\<close>, where \<open>ws\<close> may itself be
  Python's \<^verbatim>\<open>None\<close>) or leaves it out (\<open>None\<close>). The signatures of lines 19 to 21 and
  69 to 71 give the parameter the default \<^verbatim>\<open>None\<close>; the signature of lines 116 to 118
  gives it no default, so Python raises \<^verbatim>\<open>TypeError\<close> before the body runs.
\<close>

definition call_list_mounted_data_factories ::
  "env \<Rightarrow> string option option \<Rightarrow> dataframe exec" where
  "call_list_mounted_data_factories env workspace_arg =
     list_mounted_data_factories env
       (case workspace_arg of None \<Rightarrow> None | Some ws \<Rightarrow> ws)"

definition call_get_mounted_data_factory_definition ::
  "env \<Rightarrow> string \<Rightarrow> string option option \<Rightarrow> pyval exec" where
  "call_get_mounted_data_factory_definition env mounted_data_factory workspace_arg =
     get_mounted_data_factory_definition env mounted_data_factory
       (case workspace_arg of None \<Rightarrow> None | Some ws \<Rightarrow> ws)"

definition call_delete_mounted_data_factory ::
  "env \<Rightarrow> string \<Rightarrow> string option option \<Rightarrow> unit exec" where
  "call_delete_mounted_data_factory env mounted_data_factory workspace_arg =
     (case workspace_arg of
        None \<Rightarrow> raise (TypeError ''missing 1 required positional argument: workspace'')
      | Some ws \<Rightarrow> delete_mounted_data_factory env mounted_data_factory ws)"

section \<open>Remapping a Direct Lake model to a lakehouse\<close>

definition quoted :: "string \<Rightarrow> string" where
  "quoted s = CHR 0x27 # s @ [CHR 0x27]"

text \<open>The four printed lines (lines 52, 58, 65 and 67).\<close>

definition msg_no_lakehouse :: "string \<Rightarrow> string \<Rightarrow> string \<Rightarrow> string \<Rightarrow> string" where
  "msg_no_lakehouse lakehouse lakehouse_workspace dataset workspace =
     ''The '' @ quoted lakehouse @ '' lakehouse does not exist within the ''
     @ quoted lakehouse_workspace
     @ '' workspace. Therefore it cannot be used to support the ''
     @ quoted dataset @ '' semantic model within the '' @ quoted workspace
     @ '' workspace.''"

definition msg_not_direct_lake :: "string \<Rightarrow> string" where
  "msg_not_direct_lake dataset =
     ''The '' @ quoted dataset
     @ '' semantic model is not in Direct Lake. This function is only applicable to Direct Lake semantic models.''"

definition msg_updated :: "string \<Rightarrow> string \<Rightarrow> string \<Rightarrow> string" where
  "msg_updated dataset lakehouse lakehouse_workspace =
     ''The expression in the '' @ quoted dataset
     @ '' semantic model has been updated to point to the '' @ quoted lakehouse
     @ '' lakehouse in the '' @ quoted lakehouse_workspace @ '' workspace.''"

definition msg_error :: "string \<Rightarrow> string" where
  "msg_error dataset =
     ''ERROR: The expression in the '' @ quoted dataset
     @ '' semantic model was not updated.''"

subsection \<open>Tables and the object model\<close>

text \<open>\<^verbatim>\<open>df[df[c] == v]\<close>: a missing column raises, a row without the cell does not match.\<close>

definition df_filter_eq :: "dataframe \<Rightarrow> string \<Rightarrow> pyval \<Rightarrow> error + dataframe" where
  "df_filter_eq df c v =
     (if c \<in> set (columns df)
      then Inr (df\<lparr>rows := filter (\<lambda>r. map_of r c = Some v) (rows df)\<rparr>)
      else Inl (KeyError c))"

text \<open>
  \<^verbatim>\<open>tom.model.Expressions[name].Expression = v\<close>: the lookup raises when the model has
  no expression of that name; otherwise the expression's text is replaced.
\<close>

definition set_expression :: "tom_model \<Rightarrow> string \<Rightarrow> pyval \<Rightarrow> error + tom_model" where
  "set_expression m name v =
     (case map_of (expressions m) name of
        None \<Rightarrow> Inl (KeyError name)
      | Some _ \<Rightarrow>
          Inr (m\<lparr>expressions :=
                   map (\<lambda>(k, x). if k = name then (k, v) else (k, x)) (expressions m)\<rparr>))"

subsection \<open>Exception handling and the scoped connection\<close>

text \<open>\<^verbatim>\<open>try: m except: h\<close> with a bare \<^verbatim>\<open>except\<close>: every exception of \<open>m\<close> is caught.\<close>

definition try_except :: "'a exec \<Rightarrow> 'a exec \<Rightarrow> 'a exec" where
  "try_except m h = (\<lambda>w. case m w of
       (Inl e, w') \<Rightarrow> h w'
     | (Inr x, w') \<Rightarrow> (Inr x, w'))"

text \<open>\<^verbatim>\<open>try: m finally: fin\<close>: \<open>fin\<close> runs however \<open>m\<close> ends.\<close>

definition try_finally :: "'a exec \<Rightarrow> unit exec \<Rightarrow> 'a exec" where
  "try_finally m fin = (\<lambda>w. case m w of
       (r, w') \<Rightarrow> (case fin w' of
                     (Inl e, w'') \<Rightarrow> (Inl e, w'')
                   | (Inr _, w'') \<Rightarrow> (r, w'')))"

text \<open>
  Modelled from the spec: \<^verbatim>\<open>connect_semantic_model\<close> of \<^verbatim>\<open>TOM.py\<close> is not among the
  sources. The spec describes a scoped handle to a semantic model's object model, keyed
  by model name and workspace, with a read-only/read-write flag: open, mutate, then commit
  or release on all exit paths. Opening reads the model the service holds; leaving the
  scope normally with a read-write handle commits the handle's model (\<open>save_changes\<close> says
  whether the service refuses); leaving it by an exception discards the changes; the
  handle is released on every exit.
\<close>

definition connect_open :: "string \<Rightarrow> bool \<Rightarrow> string \<Rightarrow> tom_model exec" where
  "connect_open dataset readonly workspace =
     bind_exec (emit (Connect dataset readonly workspace))
       (\<lambda>_ w. case map_of (models w) (workspace, dataset) of
                 None \<Rightarrow> (Inl (NotFound dataset), w)
               | Some m \<Rightarrow> (Inr m, w))"

definition commit :: "env \<Rightarrow> string \<Rightarrow> string \<Rightarrow> tom_model \<Rightarrow> unit exec" where
  "commit env dataset workspace m =
     bind_exec (emit (SaveChanges dataset workspace))
       (\<lambda>_ w. case save_changes env dataset workspace m of
                 Some e \<Rightarrow> (Inl e, w)
               | None \<Rightarrow>
                   (Inr (), w\<lparr>models :=
                      map (\<lambda>(k, x). if k = (workspace, dataset) then (k, m) else (k, x))
                        (models w)\<rparr>))"

definition connect_semantic_model ::
  "env \<Rightarrow> string \<Rightarrow> bool \<Rightarrow> string \<Rightarrow> (tom_model \<Rightarrow> (tom_model \<times> 'a) exec) \<Rightarrow> 'a exec" where
  "connect_semantic_model env dataset readonly workspace body =
     bind_exec (connect_open dataset readonly workspace)
       (\<lambda>tom.
          try_finally
            (bind_exec (body tom)
               (\<lambda>(tom', x).
                  bind_exec (if readonly then ret () else commit env dataset workspace tom')
                    (\<lambda>_. ret x)))
            (emit (Release dataset workspace)))"

subsection \<open>update_direct_lake_model_lakehouse_connection\<close>

text \<open>Lines 34 to 38.\<close>

definition resolve_workspace :: "env \<Rightarrow> string option \<Rightarrow> (string \<times> string) exec" where
  "resolve_workspace env workspace =
     (case workspace of
        None \<Rightarrow>
          bind_exec (call GetWorkspaceId (get_workspace_id env))
            (\<lambda>workspace_id.
          bind_exec (call (ResolveWorkspaceName workspace_id)
                       (resolve_workspace_name env workspace_id))
            (\<lambda>workspace'. ret (workspace', workspace_id)))
      | Some workspace' \<Rightarrow>
          bind_exec (call (ResolveWorkspaceId workspace')
                       (resolve_workspace_id env workspace'))
            (\<lambda>workspace_id. ret (workspace', workspace_id)))"

text \<open>Lines 43 to 45.\<close>

definition resolve_lakehouse :: "env \<Rightarrow> string option \<Rightarrow> string \<Rightarrow> string exec" where
  "resolve_lakehouse env lakehouse lakehouse_workspace =
     (case lakehouse of
        None \<Rightarrow>
          bind_exec (call GetLakehouseId (get_lakehouse_id env))
            (\<lambda>lakehouse_id.
               call (ResolveLakehouseName lakehouse_id lakehouse_workspace)
                 (resolve_lakehouse_name env lakehouse_id lakehouse_workspace))
      | Some lakehouse' \<Rightarrow> ret lakehouse')"

text \<open>Lines 47 to 52: the message is printed and the function goes on.\<close>

definition check_lakehouse :: "env \<Rightarrow> string \<Rightarrow> string \<Rightarrow> string \<Rightarrow> string \<Rightarrow> unit exec" where
  "check_lakehouse env dataset workspace lakehouse lakehouse_workspace =
     bind_exec (call (ListItems lakehouse_workspace ''Lakehouse'')
                  (list_items env lakehouse_workspace ''Lakehouse''))
       (\<lambda>dfI.
     bind_exec (lift (df_filter_eq dfI ''Display Name'' (PStr lakehouse)))
       (\<lambda>dfI_filt.
          if length (rows dfI_filt) = 0
          then emit (Print (msg_no_lakehouse lakehouse lakehouse_workspace dataset workspace))
          else ret ()))"

text \<open>Lines 34 to 52 together: the workspace, lakehouse and lakehouse workspace names.\<close>

definition remap_prelude ::
  "env \<Rightarrow> string \<Rightarrow> string option \<Rightarrow> string option \<Rightarrow> string option
     \<Rightarrow> (string \<times> string \<times> string) exec" where
  "remap_prelude env dataset workspace lakehouse lakehouse_workspace =
     bind_exec (resolve_workspace env workspace)
       (\<lambda>(workspace', workspace_id).
          let lakehouse_workspace' =
                (case lakehouse_workspace of None \<Rightarrow> workspace' | Some lw \<Rightarrow> lw)
          in
     bind_exec (resolve_lakehouse env lakehouse lakehouse_workspace')
       (\<lambda>lakehouse'.
     bind_exec (check_lakehouse env dataset workspace' lakehouse' lakehouse_workspace')
       (\<lambda>_. ret (workspace', lakehouse', lakehouse_workspace'))))"

text \<open>Lines 62 to 67: the body of the \<^verbatim>\<open>with\<close> block.\<close>

definition remap_body ::
  "env \<Rightarrow> string \<Rightarrow> string \<Rightarrow> string \<Rightarrow> tom_model \<Rightarrow> (tom_model \<times> unit) exec" where
  "remap_body env dataset lakehouse lakehouse_workspace tom =
     bind_exec (call (GetSharedExpression lakehouse lakehouse_workspace)
                  (get_shared_expression env lakehouse lakehouse_workspace))
       (\<lambda>shEx.
          try_except
            (bind_exec (emit (SetExpression ''DatabaseQuery'' shEx))
               (\<lambda>_.
             bind_exec (lift (set_expression tom ''DatabaseQuery'' shEx))
               (\<lambda>tom'.
             bind_exec (emit (Print (msg_updated dataset lakehouse lakehouse_workspace)))
               (\<lambda>_. ret (tom', ())))))
            (bind_exec (emit (Print (msg_error dataset)))
               (\<lambda>_. ret (tom, ()))))"

text \<open>Lines 54 to 67, with the names of lines 34 to 52.\<close>

definition remap_resolved :: "env \<Rightarrow> string \<Rightarrow> string \<Rightarrow> string \<Rightarrow> string \<Rightarrow> unit exec" where
  "remap_resolved env dataset workspace lakehouse lakehouse_workspace =
     bind_exec (call (ListPartitions dataset workspace) (list_partitions env dataset workspace))
       (\<lambda>dfP.
     bind_exec (lift (df_filter_eq dfP ''Mode'' (PStr ''DirectLake'')))
       (\<lambda>dfP_filt.
          if length (rows dfP_filt) = 0
          then emit (Print (msg_not_direct_lake dataset))
          else connect_semantic_model env dataset False workspace
                 (remap_body env dataset lakehouse lakehouse_workspace)))"

definition update_direct_lake_model_lakehouse_connection ::
  "env \<Rightarrow> string \<Rightarrow> string option \<Rightarrow> string option \<Rightarrow> string option \<Rightarrow> unit exec" where
  "update_direct_lake_model_lakehouse_connection env dataset workspace lakehouse
       lakehouse_workspace =
     bind_exec (remap_prelude env dataset workspace lakehouse lakehouse_workspace)
       (\<lambda>(workspace', lakehouse', lakehouse_workspace').
          remap_resolved env dataset workspace' lakehouse' lakehouse_workspace')"

section \<open>Notions used in the statements\<close>

definition is_dict :: "pyval \<Rightarrow> bool" where
  "is_dict v = (case v of PDict _ \<Rightarrow> True | _ \<Rightarrow> False)"

text \<open>The test of line 110 on one part.\<close>

definition has_path :: "string \<Rightarrow> pyval \<Rightarrow> bool" where
  "has_path path p = (py_get p ''path'' PNone = Inr (PStr path))"

text \<open>The item records of one page, as line 55 reads them: a page without the key has none.\<close>

definition page_records :: "pyval \<Rightarrow> pyval list" where
  "page_records r = (case py_get r ''value'' (PList []) of Inr (PList vs) \<Rightarrow> vs | _ \<Rightarrow> [])"

text \<open>
  A record and a page as the service sends them: a record is a dictionary whose name,
  identifier and description, where present, are scalars; the records of a page are a
  list of such.
\<close>

definition well_formed_record :: "pyval \<Rightarrow> bool" where
  "well_formed_record v =
     (case v of
        PDict kv \<Rightarrow>
          list_all (\<lambda>k. case map_of kv k of None \<Rightarrow> True | Some x \<Rightarrow> is_scalar x)
            [''displayName'', ''id'', ''description'']
      | _ \<Rightarrow> False)"

definition well_formed_page :: "pyval \<Rightarrow> bool" where
  "well_formed_page r =
     (case py_get r ''value'' (PList []) of
        Inr (PList vs) \<Rightarrow> list_all well_formed_record vs
      | _ \<Rightarrow> False)"

text \<open>The events a call adds to the log.\<close>

definition new_events :: "'a exec \<Rightarrow> world \<Rightarrow> event list" where
  "new_events m w = drop (length (log w)) (log (snd (m w)))"

text \<open>The steps that open a read-write connection, write a property or commit.\<close>

fun is_mutation :: "event \<Rightarrow> bool" where
  "is_mutation (Connect _ readonly _) = (\<not> readonly)"
| "is_mutation (SetExpression _ _) = True"
| "is_mutation (SaveChanges _ _) = True"
| "is_mutation _ = False"

fun is_scope_event :: "event \<Rightarrow> bool" where
  "is_scope_event (Connect _ _ _) = True"
| "is_scope_event (Release _ _) = True"
| "is_scope_event _ = False"

text \<open>The calls that resolve the name or the identifier of a workspace.\<close>

fun resolves_workspace :: "event \<Rightarrow> bool" where
  "resolves_workspace (ResolveWorkspaceNameAndId _) = True"
| "resolves_workspace GetWorkspaceId = True"
| "resolves_workspace (ResolveWorkspaceName _) = True"
| "resolves_workspace (ResolveWorkspaceId _) = True"
| "resolves_workspace _ = False"





text \<open>
  Two notions for reasoning about a whole run: every event the computation adds satisfies
  \<open>P\<close>, and the computation leaves the models of the service as they are.
\<close>

definition emits :: "(event \<Rightarrow> bool) \<Rightarrow> 'a exec \<Rightarrow> bool" where
  "emits P m = (\<forall>w. \<exists>new. log (snd (m w)) = log w @ new \<and> list_all P new)"

definition keeps_models :: "'a exec \<Rightarrow> bool" where
  "keeps_models m = (\<forall>w. models (snd (m w)) = models w)"

subsection \<open>A sample environment\<close>

text \<open>
  A small environment for concrete runs: one workspace, a service that answers every
  request with \<open>answer\<close>, a decoder that knows two base64 texts and a parser that knows
  the two JSON texts they stand for. Every model but \<^verbatim>\<open>Budget\<close> is in Direct Lake mode;
  the service refuses to save \<^verbatim>\<open>Locked\<close>, and \<^verbatim>\<open>Bare\<close> has no expression named
  \<^verbatim>\<open>DatabaseQuery\<close>.
\<close>

definition sample_env :: "(error + pyval) \<Rightarrow> env" where
  "sample_env answer =
     \<lparr>resolve_workspace_name_and_id = (\<lambda>ws. Inr (''WS'', ''ws-id'')),
      resolve_item_id = (\<lambda>item ty ws. Inr ''id1''),
      resolve_item_name_and_id = (\<lambda>item ty ws. Inr (''DF1'', ''id1'')),
      base_api = (\<lambda>req. answer),
      decode_b64 = (\<lambda>v. if v = PStr ''e30='' then Inr ''{}''
                        else if v = PStr ''W10='' then Inr ''[]''
                        else Inl (DecodeError ''base64'')),
      json_loads = (\<lambda>s. if s = ''{}'' then Inr (PDict [])
                        else if s = ''[]'' then Inr (PList [])
                        else Inl (DecodeError ''json'')),
      astype = (\<lambda>t v. v),
      frame_value = (\<lambda>v. Inl (TypeError ''not a scalar'')),
      delete_item = (\<lambda>item_id ty ws. case answer of Inl e \<Rightarrow> Inl e | Inr _ \<Rightarrow> Inr ()),
      get_workspace_id = Inr ''ws-id'',
      resolve_workspace_name = (\<lambda>i. Inr ''WS''),
      resolve_workspace_id = (\<lambda>n. Inr ''ws-id''),
      get_lakehouse_id = Inr ''lh-id'',
      resolve_lakehouse_name = (\<lambda>i ws. Inr ''LH''),
      list_items = (\<lambda>ws ty. Inr \<lparr>columns = [''Display Name''],
                                    rows = [[(''Display Name'', PStr ''LH'')]]\<rparr>),
      list_partitions = (\<lambda>ds ws. Inr \<lparr>columns = [''Mode''],
                                         rows = [[(''Mode'', if ds = ''Budget'' then PStr ''Import''
                                                             else PStr ''DirectLake'')]]\<rparr>),
      get_shared_expression = (\<lambda>lh ws. answer),
      save_changes = (\<lambda>ds ws m. if ds = ''Locked'' then Some (RemoteFailure ''commit refused'')
                                  else None)\<rparr>"

definition sample_world :: world where
  "sample_world =
     \<lparr>log = [],
      models = [((''WS'', ''Sales''), \<lparr>expressions = [(''DatabaseQuery'', PStr ''old'')]\<rparr>),
                ((''WS'', ''Bare''), \<lparr>expressions = [(''Other'', PStr ''x'')]\<rparr>),
                ((''WS'', ''Budget''), \<lparr>expressions = [(''DatabaseQuery'', PStr ''old'')]\<rparr>),
                ((''WS'', ''Locked''), \<lparr>expressions = [(''DatabaseQuery'', PStr ''old'')]\<rparr>)]\<rparr>"




subsection \<open>Sample answers of the service\<close>

definition bundle1 :: pyval where
  "bundle1 = PDict [(''definition'', PDict [(''parts'', PList
      [PDict [(''path'', PStr ''.platform''), (''payload'', PStr ''W10='')],
       PDict [(''path'', PStr ''mountedDataFactory-content.json''), (''payload'', PStr ''e30='')]])])]"

definition bundle0 :: pyval where
  "bundle0 = PDict [(''definition'', PDict [(''parts'', PList
      [PDict [(''path'', PStr ''.platform''), (''payload'', PStr ''W10='')]])])]"

definition bundle2 :: pyval where
  "bundle2 = PDict [(''definition'', PDict [(''parts'', PList
      [PDict [(''path'', PStr ''.platform''), (''payload'', PStr ''zzz'')],
       PDict [(''path'', PStr ''mountedDataFactory-content.json''), (''payload'', PStr ''W10='')],
       PDict [(''path'', PStr ''mountedDataFactory-content.json''), (''payload'', PStr ''e30='')]])])]"

definition two_pages :: pyval where
  "two_pages = PList
     [PDict [(''value'', PList [PDict [(''displayName'', PStr ''DF1''), (''id'', PStr ''id1''),
                                        (''description'', PStr ''first'')]])],
      PDict [(''value'', PList [PDict [(''displayName'', PStr ''DF2''), (''id'', PStr ''id2''),
                                        (''description'', PStr ''second'')]])]]"


definition shared_expr :: pyval where
  "shared_expr = PStr ''let database = Sql.Database(endpoint, id) in database''"

section \<open>Properties\<close>

lemmas exec_defs = bind_exec_def call_def emit_def lift_def ret_def raise_def

subsection \<open>Fetching a definition\<close>

lemma py_get_dict: "is_dict p \<Longrightarrow> \<exists>v. py_get p k d = Inr v"
  by (cases p) (auto simp: is_dict_def py_get_def split: option.splits)

lemma next_payload_find:
  "\<forall>p\<in>set ps. is_dict p \<Longrightarrow>
   next_payload path ps =
     (case find (has_path path) ps of
        None \<Rightarrow> Inl StopIteration
      | Some p \<Rightarrow> py_get p ''payload'' PNone)"
proof (induction ps)
  case Nil
  then show ?case by simp
next
  case (Cons p ps)
  then have "is_dict p" by simp
  then obtain v where v: "py_get p ''path'' PNone = Inr v"
    using py_get_dict by blast
  with Cons show ?case by (auto simp: has_path_def)
qed

lemma next_payload_first:
  "\<forall>q\<in>set pre. is_dict q \<and> \<not> has_path path q \<Longrightarrow> has_path path p \<Longrightarrow>
   next_payload path (pre @ p # post) = py_get p ''payload'' PNone"
proof (induction pre)
  case Nil
  then show ?case by (simp add: has_path_def)
next
  case (Cons q pre)
  then have "is_dict q" by simp
  then obtain v where v: "py_get q ''path'' PNone = Inr v"
    using py_get_dict by blast
  with Cons show ?case by (auto simp: has_path_def)
qed

lemma get_definition_run:
  assumes "resolve_workspace_name_and_id env ws = Inr (wn, wid)"
    and "resolve_item_id env mdf ''MountedDataFactory'' ws = Inr iid"
    and "base_api env (definition_request wid iid) = Inr result"
  shows "get_mounted_data_factory_definition env mdf ws w =
           (definition_content env result,
            w\<lparr>log := log w @ [ResolveWorkspaceNameAndId ws,
                               ResolveItemId mdf ''MountedDataFactory'' ws,
                               BaseApi (definition_request wid iid)]\<rparr>)"
  using assms
  by (simp add: get_mounted_data_factory_definition_def bind_exec_def call_def emit_def lift_def)

lemma definition_content_parts:
  assumes "py_subscript result ''definition'' = Inr d"
    and "py_subscript d ''parts'' = Inr (PList ps)"
  shows "definition_content env result =
           (case next_payload content_path ps of
              Inl e \<Rightarrow> Inl e
            | Inr payload \<Rightarrow>
                (case decode_b64 env payload of Inl e \<Rightarrow> Inl e | Inr s \<Rightarrow> json_loads env s))"
  using assms by (simp add: definition_content_def py_iter_def)

text \<open>
  Claim C1. The service returns a bundle \<open>{definition: {parts: [...]}}\<close> whose parts are
  dictionaries. When some part has the path \<^verbatim>\<open>mountedDataFactory-content.json\<close>,
  \<open>get_mounted_data_factory_definition\<close> returns what base64-decoding and JSON-parsing
  the payload of that part (the first one found) gives; when no part has that path, it
  fails with \<^verbatim>\<open>StopIteration\<close>, the condition \<^verbatim>\<open>next\<close> raises for "not found", and
  with no other error.
\<close>

theorem get_definition_content_or_stop_iteration:
  assumes "resolve_workspace_name_and_id env ws = Inr (wn, wid)"
    and "resolve_item_id env mdf ''MountedDataFactory'' ws = Inr iid"
    and "base_api env (definition_request wid iid) = Inr result"
    and "py_subscript result ''definition'' = Inr d"
    and "py_subscript d ''parts'' = Inr (PList ps)"
    and "\<forall>p\<in>set ps. is_dict p"
  shows "(\<forall>p payload. find (has_path content_path) ps = Some p
            \<longrightarrow> py_get p ''payload'' PNone = Inr payload
            \<longrightarrow> fst (get_mounted_data_factory_definition env mdf ws w) =
                  (case decode_b64 env payload of
                     Inl e \<Rightarrow> Inl e
                   | Inr s \<Rightarrow> json_loads env s))
       \<and> (find (has_path content_path) ps = None
            \<longrightarrow> fst (get_mounted_data_factory_definition env mdf ws w) = Inl StopIteration)"
proof -
  have run: "fst (get_mounted_data_factory_definition env mdf ws w) =
               (case next_payload content_path ps of
                  Inl e \<Rightarrow> Inl e
                | Inr payload \<Rightarrow>
                    (case decode_b64 env payload of Inl e \<Rightarrow> Inl e | Inr s \<Rightarrow> json_loads env s))"
    using get_definition_run[OF assms(1-3)] definition_content_parts[OF assms(4,5)] by simp
  have np: "next_payload content_path ps =
              (case find (has_path content_path) ps of
                 None \<Rightarrow> Inl StopIteration
               | Some p \<Rightarrow> py_get p ''payload'' PNone)"
    using next_payload_find[OF assms(6)] .
  show ?thesis unfolding run np by simp
qed

theorem get_definition_content_or_stop_iteration_witness:
  "fst (get_mounted_data_factory_definition (sample_env (Inr bundle1)) ''DF1'' None sample_world)
     = Inr (PDict [])
   \<and> fst (get_mounted_data_factory_definition (sample_env (Inr bundle0)) ''DF1'' None sample_world)
     = Inl StopIteration"
proof -
  let ?p1 = "PDict [(''path'', PStr ''.platform''), (''payload'', PStr ''W10='')]"
  let ?p2 = "PDict [(''path'', PStr ''mountedDataFactory-content.json''), (''payload'', PStr ''e30='')]"
  have a: "fst (get_mounted_data_factory_definition (sample_env (Inr bundle1)) ''DF1'' None sample_world)
     = Inr (PDict [])"
    using get_definition_content_or_stop_iteration
      [of "sample_env (Inr bundle1)" None "''WS''" "''ws-id''" "''DF1''" "''id1''" bundle1
          "PDict [(''parts'', PList [?p1, ?p2])]" "[?p1, ?p2]" sample_world]
    by (simp add: sample_env_def bundle1_def py_subscript_def is_dict_def has_path_def
        py_get_def content_path_def)
  have b: "fst (get_mounted_data_factory_definition (sample_env (Inr bundle0)) ''DF1'' None sample_world)
     = Inl StopIteration"
    using get_definition_content_or_stop_iteration
      [of "sample_env (Inr bundle0)" None "''WS''" "''ws-id''" "''DF1''" "''id1''" bundle0
          "PDict [(''parts'', PList [?p1])]" "[?p1]" sample_world]
    by (simp add: sample_env_def bundle0_def py_subscript_def is_dict_def has_path_def
        py_get_def content_path_def)
  from a b show ?thesis by simp
qed

text \<open>
  Claim C10. When several parts have the path \<^verbatim>\<open>mountedDataFactory-content.json\<close>,
  the result is the decoded and parsed payload of the first of them in bundle order;
  whatever follows it, matching or not, well formed or not, is ignored.
\<close>

theorem get_definition_first_matching_part:
  assumes "resolve_workspace_name_and_id env ws = Inr (wn, wid)"
    and "resolve_item_id env mdf ''MountedDataFactory'' ws = Inr iid"
    and "base_api env (definition_request wid iid) = Inr result"
    and "py_subscript result ''definition'' = Inr d"
    and "py_subscript d ''parts'' = Inr (PList (pre @ p # post))"
    and "\<forall>q\<in>set pre. is_dict q \<and> \<not> has_path content_path q"
    and "has_path content_path p"
    and "py_get p ''payload'' PNone = Inr payload"
  shows "fst (get_mounted_data_factory_definition env mdf ws w) =
           (case decode_b64 env payload of Inl e \<Rightarrow> Inl e | Inr s \<Rightarrow> json_loads env s)"
  using get_definition_run[OF assms(1-3)] definition_content_parts[OF assms(4,5)]
    next_payload_first[OF assms(6,7)] assms(8)
  by simp

theorem get_definition_first_matching_part_witness:
  "fst (get_mounted_data_factory_definition (sample_env (Inr bundle2)) ''DF1'' None sample_world)
     = Inr (PList [])"
proof -
  let ?p0 = "PDict [(''path'', PStr ''.platform''), (''payload'', PStr ''zzz'')]"
  let ?p1 = "PDict [(''path'', PStr ''mountedDataFactory-content.json''), (''payload'', PStr ''W10='')]"
  let ?p2 = "PDict [(''path'', PStr ''mountedDataFactory-content.json''), (''payload'', PStr ''e30='')]"
  show ?thesis
    using get_definition_first_matching_part
      [of "sample_env (Inr bundle2)" None "''WS''" "''ws-id''" "''DF1''" "''id1''" bundle2
          "PDict [(''parts'', PList [?p0, ?p1, ?p2])]" "[?p0]" ?p1 "[?p2]" "PStr ''W10=''"
          sample_world]
    by (simp add: sample_env_def bundle2_def py_subscript_def is_dict_def has_path_def
        py_get_def content_path_def)
qed

subsection \<open>Listing\<close>

lemma new_data_dict:
  "new_data (PDict kv) =
     Inr [(''Mounted Data Factory Name'', case map_of kv ''displayName'' of None \<Rightarrow> PNone | Some x \<Rightarrow> x),
          (''Mounted Data Factory Id'', case map_of kv ''id'' of None \<Rightarrow> PNone | Some x \<Rightarrow> x),
          (''Description'', case map_of kv ''description'' of None \<Rightarrow> PNone | Some x \<Rightarrow> x)]"
  by (simp add: new_data_def py_get_def split: option.splits)

lemma scalar_or_none:
  "(case map_of kv k of None \<Rightarrow> True | Some x \<Rightarrow> is_scalar x) \<Longrightarrow>
   is_scalar (case map_of kv k of None \<Rightarrow> PNone | Some x \<Rightarrow> x)"
  by (cases "map_of kv k") (simp_all add: is_scalar_def)

lemma record_row:
  assumes "well_formed_record v"
  shows "\<exists>nd. new_data v = Inr nd \<and> one_row_frame env nd = Inr nd
              \<and> map fst nd = map fst columns_mdf"
proof -
  from assms obtain kv where v: "v = PDict kv"
    by (cases v) (auto simp: well_formed_record_def)
  from assms v have
    "is_scalar (case map_of kv ''displayName'' of None \<Rightarrow> PNone | Some x \<Rightarrow> x)"
    "is_scalar (case map_of kv ''id'' of None \<Rightarrow> PNone | Some x \<Rightarrow> x)"
    "is_scalar (case map_of kv ''description'' of None \<Rightarrow> PNone | Some x \<Rightarrow> x)"
    by (simp_all add: well_formed_record_def scalar_or_none)
  then show ?thesis
    unfolding v new_data_dict by (simp add: columns_mdf_def)
qed

lemma concat_row_columns:
  "columns df = map fst columns_mdf \<Longrightarrow> map fst nd = map fst columns_mdf \<Longrightarrow>
   columns (concat_row df nd) = columns df"
  by (simp add: concat_row_def)

lemma loop_values_ok:
  assumes "list_all well_formed_record vs" and "columns df = map fst columns_mdf"
  shows "\<exists>df'. loop_values env df vs = Inr df' \<and> columns df' = columns df
           \<and> map Inr (rows df') = map Inr (rows df) @ map new_data vs"
  using assms
proof (induction vs arbitrary: df)
  case Nil
  then show ?case by simp
next
  case (Cons v vs)
  then have "well_formed_record v" by simp
  from record_row[OF this, of env]
  obtain nd where nd: "new_data v = Inr nd" "one_row_frame env nd = Inr nd"
    "map fst nd = map fst columns_mdf"
    by blast
  have cols: "columns (concat_row df nd) = map fst columns_mdf"
    using concat_row_columns[OF Cons.prems(2) nd(3)] Cons.prems(2) by simp
  from Cons.IH[OF _ cols] Cons.prems(1)
  obtain df' where df': "loop_values env (concat_row df nd) vs = Inr df'"
    "columns df' = columns (concat_row df nd)"
    "map Inr (rows df') = map Inr (rows (concat_row df nd)) @ map new_data vs"
    by auto
  show ?case
    using df' nd cols Cons.prems(2) by (simp add: concat_row_def)
qed

lemma well_formed_pageD:
  "well_formed_page r \<Longrightarrow>
   py_get r ''value'' (PList []) = Inr (PList (page_records r))
   \<and> list_all well_formed_record (page_records r)"
  by (auto simp: well_formed_page_def page_records_def split: sum.splits pyval.splits)

lemma loop_responses_ok:
  assumes "list_all well_formed_page rs" and "columns df = map fst columns_mdf"
  shows "\<exists>df'. loop_responses env df rs = Inr df' \<and> columns df' = columns df
           \<and> map Inr (rows df') = map Inr (rows df) @ map new_data (concat (map page_records rs))"
  using assms
proof (induction rs arbitrary: df)
  case Nil
  then show ?case by simp
next
  case (Cons r rs)
  from Cons.prems(1) have r: "py_get r ''value'' (PList []) = Inr (PList (page_records r))"
    and ds: "list_all well_formed_record (page_records r)"
    using well_formed_pageD by auto
  from loop_values_ok[OF ds Cons.prems(2)]
  obtain d1 where d1: "loop_values env df (page_records r) = Inr d1" "columns d1 = columns df"
    "map Inr (rows d1) = map Inr (rows df) @ map new_data (page_records r)"
    by auto
  from Cons.IH[of d1] Cons.prems d1(2)
  obtain d2 where d2: "loop_responses env d1 rs = Inr d2" "columns d2 = columns d1"
    "map Inr (rows d2) = map Inr (rows d1) @ map new_data (concat (map page_records rs))"
    by auto
  show ?case
    using r d1 d2 by (simp add: py_iter_def)
qed

lemma loop_from_empty:
  assumes "list_all well_formed_page pages"
  shows "\<exists>df. loop_responses env (create_dataframe columns_mdf) pages = Inr df
           \<and> columns df = map fst columns_mdf
           \<and> map Inr (rows df) = map new_data (concat (map page_records pages))"
  using loop_responses_ok[OF assms, of "create_dataframe columns_mdf" env]
  by (simp add: create_dataframe_def)

lemma list_run:
  assumes "resolve_workspace_name_and_id env ws = Inr (wn, wid)"
    and "base_api env (list_request wid) = Inr (PList pages)"
    and "loop_responses env (create_dataframe columns_mdf) pages = Inr df"
  shows "list_mounted_data_factories env ws w =
           (Inr (update_dataframe_datatypes env df columns_mdf),
            w\<lparr>log := log w @ [ResolveWorkspaceNameAndId ws, BaseApi (list_request wid)]\<rparr>)"
  using assms
  by (simp add: list_mounted_data_factories_def bind_exec_def call_def emit_def lift_def
      ret_def py_iter_def)

lemma map_Inr_nth:
  assumes "map Inr xs = map f ys" and "i < length ys"
  shows "f (ys ! i) = Inr (xs ! i)"
proof -
  have len: "length xs = length ys" using assms(1) by (metis length_map)
  have "f (ys ! i) = map f ys ! i" using assms(2) by simp
  also have "\<dots> = map Inr xs ! i" using assms(1) by simp
  also have "\<dots> = Inr (xs ! i)" using assms(2) len by simp
  finally show ?thesis .
qed

text \<open>
  Claim C4. For a workspace that resolves and a paginated answer whose pages hold \<open>N\<close>
  item records in all, \<open>list_mounted_data_factories\<close> returns a table with the three
  columns and exactly \<open>N\<close> rows: row \<open>i\<close> is built from record \<open>i\<close> of the pages taken in
  answer order, each page's records in page order, so no record gives two rows.
\<close>

theorem list_one_row_per_record_in_order:
  assumes "resolve_workspace_name_and_id env ws = Inr (wn, wid)"
    and "base_api env (list_request wid) = Inr (PList pages)"
    and "list_all well_formed_page pages"
  shows "\<exists>df. fst (list_mounted_data_factories env ws w) = Inr df
           \<and> columns df = [''Mounted Data Factory Name'', ''Mounted Data Factory Id'', ''Description'']
           \<and> length (rows df) = length (concat (map page_records pages))
           \<and> (\<forall>i<length (concat (map page_records pages)).
                 \<exists>nd. new_data (concat (map page_records pages) ! i) = Inr nd
                    \<and> rows df ! i = retype_row env columns_mdf nd)"
proof -
  let ?recs = "concat (map page_records pages)"
  from loop_from_empty[OF assms(3)]
  obtain df where df: "loop_responses env (create_dataframe columns_mdf) pages = Inr df"
    "columns df = map fst columns_mdf" "map Inr (rows df) = map new_data ?recs"
    by auto
  have len: "length (rows df) = length ?recs"
    using df(3) by (metis length_map)
  let ?out = "update_dataframe_datatypes env df columns_mdf"
  have "fst (list_mounted_data_factories env ws w) = Inr ?out"
    using list_run[OF assms(1,2) df(1)] by simp
  moreover have "columns ?out = [''Mounted Data Factory Name'', ''Mounted Data Factory Id'', ''Description'']"
    using df(2) by (simp add: update_dataframe_datatypes_def columns_mdf_def)
  moreover have "length (rows ?out) = length ?recs"
    using len by (simp add: update_dataframe_datatypes_def)
  moreover have "\<forall>i<length ?recs. \<exists>nd. new_data (?recs ! i) = Inr nd
                    \<and> rows ?out ! i = retype_row env columns_mdf nd"
  proof (intro allI impI)
    fix i assume i: "i < length ?recs"
    have "new_data (?recs ! i) = Inr (rows df ! i)"
      using map_Inr_nth[OF df(3) i] .
    moreover have "rows ?out ! i = retype_row env columns_mdf (rows df ! i)"
      using i len by (simp add: update_dataframe_datatypes_def)
    ultimately show "\<exists>nd. new_data (?recs ! i) = Inr nd
                    \<and> rows ?out ! i = retype_row env columns_mdf nd"
      by blast
  qed
  ultimately show ?thesis by blast
qed

theorem list_one_row_per_record_in_order_witness:
  "fst (list_mounted_data_factories (sample_env (Inr two_pages)) None sample_world) =
     Inr \<lparr>columns = [''Mounted Data Factory Name'', ''Mounted Data Factory Id'', ''Description''],
          rows = [[(''Mounted Data Factory Name'', PStr ''DF1''),
                   (''Mounted Data Factory Id'', PStr ''id1''),
                   (''Description'', PStr ''first'')],
                  [(''Mounted Data Factory Name'', PStr ''DF2''),
                   (''Mounted Data Factory Id'', PStr ''id2''),
                   (''Description'', PStr ''second'')]]\<rparr>"
proof -
  let ?r1 = "PDict [(''displayName'', PStr ''DF1''), (''id'', PStr ''id1''),
                    (''description'', PStr ''first'')]"
  let ?r2 = "PDict [(''displayName'', PStr ''DF2''), (''id'', PStr ''id2''),
                    (''description'', PStr ''second'')]"
  let ?pages = "[PDict [(''value'', PList [?r1])], PDict [(''value'', PList [?r2])]]"
  let ?env = "sample_env (Inr two_pages)"
  have recs: "concat (map page_records ?pages) = [?r1, ?r2]"
    by (simp add: page_records_def py_get_def)
  have wf: "list_all well_formed_page ?pages"
    by (simp add: well_formed_page_def well_formed_record_def py_get_def is_scalar_def)
  have res: "resolve_workspace_name_and_id ?env None = Inr (''WS'', ''ws-id'')"
    by (simp add: sample_env_def)
  have api: "base_api ?env (list_request ''ws-id'') = Inr (PList ?pages)"
    by (simp add: sample_env_def two_pages_def)
  from list_one_row_per_record_in_order[OF res api wf, of sample_world]
  obtain df where df: "fst (list_mounted_data_factories ?env None sample_world) = Inr df"
    "columns df = [''Mounted Data Factory Name'', ''Mounted Data Factory Id'', ''Description'']"
    "length (rows df) = 2"
    "\<forall>i<2. \<exists>nd. new_data ([?r1, ?r2] ! i) = Inr nd \<and> rows df ! i = retype_row ?env columns_mdf nd"
    unfolding recs by auto
  from df(4)[rule_format, of 0]
  have "\<exists>nd. new_data ?r1 = Inr nd \<and> rows df ! 0 = retype_row ?env columns_mdf nd"
    by simp
  then have r0: "rows df ! 0 = [(''Mounted Data Factory Name'', PStr ''DF1''),
                   (''Mounted Data Factory Id'', PStr ''id1''),
                   (''Description'', PStr ''first'')]"
    by (auto simp: new_data_def py_get_def retype_row_def columns_mdf_def sample_env_def)
  from df(4)[rule_format, of 1]
  have "\<exists>nd. new_data ?r2 = Inr nd \<and> rows df ! 1 = retype_row ?env columns_mdf nd"
    by simp
  then have r1: "rows df ! 1 = [(''Mounted Data Factory Name'', PStr ''DF2''),
                   (''Mounted Data Factory Id'', PStr ''id2''),
                   (''Description'', PStr ''second'')]"
    by (auto simp: new_data_def py_get_def retype_row_def columns_mdf_def sample_env_def)
  from df(3) obtain a b where ab: "rows df = [a, b]"
    by (cases "rows df"; cases "tl (rows df)") auto
  with r0 r1 have "rows df = [[(''Mounted Data Factory Name'', PStr ''DF1''),
                   (''Mounted Data Factory Id'', PStr ''id1''),
                   (''Description'', PStr ''first'')],
                  [(''Mounted Data Factory Name'', PStr ''DF2''),
                   (''Mounted Data Factory Id'', PStr ''id2''),
                   (''Description'', PStr ''second'')]]"
    by simp
  with df(1,2) show ?thesis by simp
qed





subsection \<open>Deleting and the call sites\<close>

text \<open>
  Claim C5. Once the item is resolved, \<open>delete_mounted_data_factory\<close> issues exactly one
  deletion call. It prints the success line only after that call has returned; when the
  call fails, its error reaches the caller and no success line is printed.
\<close>

theorem delete_once_and_success_only_after_it:
  assumes "resolve_item_name_and_id env mdf ''MountedDataFactory'' ws = Inr (item_name, item_id)"
  shows "delete_mounted_data_factory env mdf ws w =
           (case delete_item env item_id ''MountedDataFactory'' ws of
              Inl e \<Rightarrow>
                (Inl e,
                 w\<lparr>log := log w @ [ResolveItemNameAndId mdf ''MountedDataFactory'' ws,
                                    DeleteItem item_id ''MountedDataFactory'' ws]\<rparr>)
            | Inr _ \<Rightarrow>
                (Inr (),
                 w\<lparr>log := log w @ [ResolveItemNameAndId mdf ''MountedDataFactory'' ws,
                                    DeleteItem item_id ''MountedDataFactory'' ws,
                                    PrintSuccess item_name ''Mounted Data Factory'' ''deleted'']\<rparr>))"
  using assms
  by (simp add: delete_mounted_data_factory_def bind_exec_def call_def emit_def lift_def
      split: sum.splits)

theorem delete_once_and_success_only_after_it_witness:
  "delete_mounted_data_factory (sample_env (Inr PNone)) ''DF1'' (Some ''WS'') sample_world =
     (Inr (),
      sample_world\<lparr>log := [ResolveItemNameAndId ''DF1'' ''MountedDataFactory'' (Some ''WS''),
                           DeleteItem ''id1'' ''MountedDataFactory'' (Some ''WS''),
                           PrintSuccess ''DF1'' ''Mounted Data Factory'' ''deleted'']\<rparr>)
   \<and> delete_mounted_data_factory (sample_env (Inl (RemoteFailure ''500''))) ''DF1'' (Some ''WS'')
       sample_world =
     (Inl (RemoteFailure ''500''),
      sample_world\<lparr>log := [ResolveItemNameAndId ''DF1'' ''MountedDataFactory'' (Some ''WS''),
                           DeleteItem ''id1'' ''MountedDataFactory'' (Some ''WS'')]\<rparr>)"
  using delete_once_and_success_only_after_it
      [of "sample_env (Inr PNone)" "''DF1''" "Some ''WS''" "''DF1''" "''id1''" sample_world]
    delete_once_and_success_only_after_it
      [of "sample_env (Inl (RemoteFailure ''500''))" "''DF1''" "Some ''WS''" "''DF1''" "''id1''"
          sample_world]
  by (simp add: sample_env_def sample_world_def)

text \<open>
  Claim C9. \<open>delete_mounted_data_factory\<close> gives its \<^verbatim>\<open>workspace\<close> parameter no default:
  a call that leaves the argument out fails with \<^verbatim>\<open>TypeError\<close> before anything is
  resolved or requested, whereas the listing and the definition fetch run with
  \<^verbatim>\<open>None\<close>.
\<close>

theorem delete_requires_workspace_argument:
  "call_delete_mounted_data_factory env mdf None w =
     (Inl (TypeError ''missing 1 required positional argument: workspace''), w)
   \<and> call_list_mounted_data_factories env None = list_mounted_data_factories env None
   \<and> call_get_mounted_data_factory_definition env mdf None =
       get_mounted_data_factory_definition env mdf None"
  by (simp add: call_delete_mounted_data_factory_def call_list_mounted_data_factories_def
      call_get_mounted_data_factory_definition_def raise_def)

subsection \<open>Events and models along a run\<close>

lemma emits_ret: "emits P (ret x)"
  by (simp add: emits_def ret_def)

lemma emits_lift: "emits P (lift r)"
  by (simp add: emits_def lift_def)

lemma emits_emit: "P ev \<Longrightarrow> emits P (emit ev)"
  by (simp add: emits_def emit_def)

lemma emits_bind:
  assumes "emits P m" and "\<And>x. emits P (f x)"
  shows "emits P (bind_exec m f)"
  unfolding emits_def
proof
  fix w
  obtain r w' where mw: "m w = (r, w')" by (cases "m w")
  from assms(1) obtain a where a: "log w' = log w @ a" "list_all P a"
    unfolding emits_def using mw by (metis snd_conv)
  show "\<exists>new. log (snd (bind_exec m f w)) = log w @ new \<and> list_all P new"
  proof (cases r)
    case (Inl e)
    then show ?thesis using mw a by (auto simp: bind_exec_def)
  next
    case (Inr x)
    from assms(2)[of x] obtain b where b: "log (snd (f x w')) = log w' @ b" "list_all P b"
      unfolding emits_def by blast
    have "log (snd (bind_exec m f w)) = log w @ (a @ b)"
      using Inr mw a b by (simp add: bind_exec_def)
    moreover have "list_all P (a @ b)" using a b by simp
    ultimately show ?thesis by blast
  qed
qed

lemma emits_call: "P ev \<Longrightarrow> emits P (call ev r)"
  unfolding call_def by (intro emits_bind emits_emit emits_lift)



lemma keeps_ret: "keeps_models (ret x)"
  by (simp add: keeps_models_def ret_def)

lemma keeps_lift: "keeps_models (lift r)"
  by (simp add: keeps_models_def lift_def)

lemma keeps_emit: "keeps_models (emit ev)"
  by (simp add: keeps_models_def emit_def)

lemma keeps_bind:
  assumes "keeps_models m" and "\<And>x. keeps_models (f x)"
  shows "keeps_models (bind_exec m f)"
  unfolding keeps_models_def
proof
  fix w
  obtain r w' where mw: "m w = (r, w')" by (cases "m w")
  then have w': "models w' = models w"
    using assms(1) unfolding keeps_models_def by (metis snd_conv)
  show "models (snd (bind_exec m f w)) = models w"
  proof (cases r)
    case (Inl e)
    then show ?thesis using mw w' by (simp add: bind_exec_def)
  next
    case (Inr x)
    then show ?thesis using mw w' assms(2)[of x]
      by (simp add: bind_exec_def keeps_models_def)
  qed
qed

lemma keeps_call: "keeps_models (call ev r)"
  unfolding call_def by (intro keeps_bind keeps_emit keeps_lift)

subsection \<open>Remapping: the steps before the partitions are read\<close>

lemma emits_resolve_workspace:
  "(\<And>ev. resolves_workspace ev \<Longrightarrow> P ev) \<Longrightarrow> emits P (resolve_workspace env workspace)"
  unfolding resolve_workspace_def
  by (cases workspace) (auto intro!: emits_bind emits_call emits_ret)

lemma emits_resolve_lakehouse:
  "P GetLakehouseId \<Longrightarrow> (\<And>a b. P (ResolveLakehouseName a b)) \<Longrightarrow>
   emits P (resolve_lakehouse env lakehouse lw)"
  unfolding resolve_lakehouse_def
  by (cases lakehouse) (auto intro!: emits_bind emits_call emits_ret)

lemma emits_check_lakehouse:
  "(\<And>a b. P (ListItems a b)) \<Longrightarrow> (\<And>s. P (Print s)) \<Longrightarrow>
   emits P (check_lakehouse env dataset workspace lakehouse lw)"
  unfolding check_lakehouse_def
  by (auto intro!: emits_bind emits_call emits_ret emits_lift emits_emit)

lemma emits_remap_prelude:
  "emits (\<lambda>ev. \<not> is_mutation ev \<and> \<not> is_scope_event ev)
     (remap_prelude env dataset workspace lakehouse lw)"
  unfolding remap_prelude_def Let_def
  by (auto intro!: emits_bind emits_ret emits_resolve_workspace emits_resolve_lakehouse
      emits_check_lakehouse elim: resolves_workspace.elims)

lemma keeps_remap_prelude:
  "keeps_models (remap_prelude env dataset workspace lakehouse lw)"
  unfolding remap_prelude_def Let_def resolve_workspace_def resolve_lakehouse_def
    check_lakehouse_def
  by (auto intro!: keeps_bind keeps_ret keeps_call keeps_lift keeps_emit
      split: option.splits)

lemma emitsD:
  "emits P m \<Longrightarrow> \<exists>new. log (snd (m w)) = log w @ new \<and> list_all P new"
  by (simp add: emits_def)

lemma new_events_append:
  "log (snd (m w)) = log w @ new \<Longrightarrow> new_events m w = new"
  by (simp add: new_events_def)

lemma update_after_prelude:
  assumes "remap_prelude env dataset workspace lakehouse lakehouse_workspace w0
             = (Inr (ws, lh, lhws), w1)"
  shows "update_direct_lake_model_lakehouse_connection env dataset workspace lakehouse
           lakehouse_workspace w0
         = remap_resolved env dataset ws lh lhws w1"
  using assms by (simp add: update_direct_lake_model_lakehouse_connection_def bind_exec_def)

lemma prelude_world:
  assumes "remap_prelude env dataset workspace lakehouse lakehouse_workspace w0 = (r, w1)"
  shows "models w1 = models w0"
    and "\<exists>new. log w1 = log w0 @ new
           \<and> list_all (\<lambda>ev. \<not> is_mutation ev \<and> \<not> is_scope_event ev) new"
proof -
  show "models w1 = models w0"
    using keeps_remap_prelude[of env dataset workspace lakehouse lakehouse_workspace] assms
    unfolding keeps_models_def by (metis snd_conv)
  show "\<exists>new. log w1 = log w0 @ new
           \<and> list_all (\<lambda>ev. \<not> is_mutation ev \<and> \<not> is_scope_event ev) new"
    using emitsD[OF emits_remap_prelude, of env dataset workspace lakehouse lakehouse_workspace w0]
      assms by simp
qed

lemma remap_resolved_not_direct_lake:
  assumes "list_partitions env dataset ws = Inr dfP"
    and "''Mode'' \<in> set (columns dfP)"
    and "list_all (\<lambda>r. map_of r ''Mode'' \<noteq> Some (PStr ''DirectLake'')) (rows dfP)"
  shows "remap_resolved env dataset ws lh lhws w1 =
           (Inr (), w1\<lparr>log := log w1 @ [ListPartitions dataset ws,
                                          Print (msg_not_direct_lake dataset)]\<rparr>)"
proof -
  have "filter (\<lambda>r. map_of r ''Mode'' = Some (PStr ''DirectLake'')) (rows dfP) = []"
    using assms(3) by (induction "rows dfP") (auto simp: list_all_iff filter_empty_conv)
  then show ?thesis
    using assms(1,2) by (simp add: remap_resolved_def df_filter_eq_def exec_defs)
qed

text \<open>
  Claim C3. When the model has no partition in \<^verbatim>\<open>DirectLake\<close> mode,
  \<open>update_direct_lake_model_lakehouse_connection\<close> changes nothing: after reading the
  partitions it only prints that the model is not in Direct Lake and returns. No
  read-write connection is opened, no property is set, nothing is committed, and the
  models of the service are as before.
\<close>

theorem remap_not_direct_lake_no_mutation:
  assumes "remap_prelude env dataset workspace lakehouse lakehouse_workspace w0
             = (Inr (ws, lh, lhws), w1)"
    and "list_partitions env dataset ws = Inr dfP"
    and "''Mode'' \<in> set (columns dfP)"
    and "list_all (\<lambda>r. map_of r ''Mode'' \<noteq> Some (PStr ''DirectLake'')) (rows dfP)"
  shows "update_direct_lake_model_lakehouse_connection env dataset workspace lakehouse
           lakehouse_workspace w0
         = (Inr (), w1\<lparr>log := log w1 @ [ListPartitions dataset ws,
                                        Print (msg_not_direct_lake dataset)]\<rparr>)
       \<and> models w1 = models w0
       \<and> filter is_mutation
           (new_events (update_direct_lake_model_lakehouse_connection env dataset workspace
                          lakehouse lakehouse_workspace) w0) = []"
proof -
  let ?run = "update_direct_lake_model_lakehouse_connection env dataset workspace lakehouse
                lakehouse_workspace"
  have run: "?run w0 = (Inr (), w1\<lparr>log := log w1 @ [ListPartitions dataset ws,
                                        Print (msg_not_direct_lake dataset)]\<rparr>)"
    using update_after_prelude[OF assms(1)] remap_resolved_not_direct_lake[OF assms(2-4)]
    by simp
  from prelude_world[OF assms(1)] obtain new where
    m: "models w1 = models w0" and new: "log w1 = log w0 @ new"
      "list_all (\<lambda>ev. \<not> is_mutation ev \<and> \<not> is_scope_event ev) new"
    by blast
  have "log (snd (?run w0)) =
          log w0 @ (new @ [ListPartitions dataset ws, Print (msg_not_direct_lake dataset)])"
    using run new by simp
  then have "new_events ?run w0 =
          new @ [ListPartitions dataset ws, Print (msg_not_direct_lake dataset)]"
    by (rule new_events_append)
  then have "filter is_mutation (new_events ?run w0) = []"
    using new(2) by (simp add: list_all_iff filter_empty_conv)
  with run m show ?thesis by simp
qed

lemma sample_prelude:
  "remap_prelude (sample_env a) ds (Some ''WS'') (Some ''LH'') None sample_world =
     (Inr (''WS'', ''LH'', ''WS''),
      sample_world\<lparr>log := [ResolveWorkspaceId ''WS'', ListItems ''WS'' ''Lakehouse'']\<rparr>)"
  by (simp add: remap_prelude_def resolve_workspace_def resolve_lakehouse_def
      check_lakehouse_def df_filter_eq_def exec_defs sample_env_def sample_world_def)

theorem remap_not_direct_lake_no_mutation_witness:
  "update_direct_lake_model_lakehouse_connection (sample_env (Inr shared_expr)) ''Budget''
     (Some ''WS'') (Some ''LH'') None sample_world
   = (Inr (), sample_world\<lparr>log := [ResolveWorkspaceId ''WS'', ListItems ''WS'' ''Lakehouse'',
                                     ListPartitions ''Budget'' ''WS'',
                                     Print (msg_not_direct_lake ''Budget'')]\<rparr>)
   \<and> filter is_mutation
        (new_events (update_direct_lake_model_lakehouse_connection (sample_env (Inr shared_expr))
                       ''Budget'' (Some ''WS'') (Some ''LH'') None) sample_world) = []"
proof -
  let ?env = "sample_env (Inr shared_expr)"
  have p: "list_partitions ?env ''Budget'' ''WS''
             = Inr \<lparr>columns = [''Mode''], rows = [[(''Mode'', PStr ''Import'')]]\<rparr>"
    by (simp add: sample_env_def)
  show ?thesis
    using remap_not_direct_lake_no_mutation[OF sample_prelude p]
    by simp
qed

subsection \<open>The scoped connection\<close>



text \<open>The run once the model is known to be in Direct Lake mode and the connection opens.\<close>

lemma remap_resolved_direct_lake:
  assumes "list_partitions env dataset ws = Inr dfP"
    and "''Mode'' \<in> set (columns dfP)"
    and "\<not> list_all (\<lambda>r. map_of r ''Mode'' \<noteq> Some (PStr ''DirectLake'')) (rows dfP)"
    and "map_of (models w1) (ws, dataset) = Some m"
  shows "remap_resolved env dataset ws lh lhws w1 =
     (case get_shared_expression env lh lhws of
        Inl e \<Rightarrow>
          (Inl e, w1\<lparr>log := log w1 @ [ListPartitions dataset ws, Connect dataset False ws,
                                       GetSharedExpression lh lhws, Release dataset ws]\<rparr>)
      | Inr shEx \<Rightarrow>
          (let (m', msg) = (case set_expression m ''DatabaseQuery'' shEx of
                              Inl e \<Rightarrow> (m, msg_error dataset)
                            | Inr m' \<Rightarrow> (m', msg_updated dataset lh lhws));
               evs = [ListPartitions dataset ws, Connect dataset False ws,
                      GetSharedExpression lh lhws, SetExpression ''DatabaseQuery'' shEx,
                      Print msg, SaveChanges dataset ws, Release dataset ws]
           in case save_changes env dataset ws m' of
                Some e \<Rightarrow> (Inl e, w1\<lparr>log := log w1 @ evs\<rparr>)
              | None \<Rightarrow>
                  (Inr (),
                   w1\<lparr>log := log w1 @ evs,
                      models := map (\<lambda>(k, x). if k = (ws, dataset) then (k, m') else (k, x))
                                  (models w1)\<rparr>)))"
proof -
  have "filter (\<lambda>r. map_of r ''Mode'' = Some (PStr ''DirectLake'')) (rows dfP) \<noteq> []"
    using assms(3) by (auto simp: list_all_iff filter_empty_conv)
  then have dl: "df_filter_eq dfP ''Mode'' (PStr ''DirectLake'') =
                   Inr (dfP\<lparr>rows := filter (\<lambda>r. map_of r ''Mode'' = Some (PStr ''DirectLake''))
                                        (rows dfP)\<rparr>)"
    and ne: "length (rows (dfP\<lparr>rows := filter (\<lambda>r. map_of r ''Mode'' = Some (PStr ''DirectLake''))
                                        (rows dfP)\<rparr>)) \<noteq> 0"
    using assms(2) by (simp_all add: df_filter_eq_def)
  show ?thesis
    using assms(1,4) dl ne
    by (simp add: remap_resolved_def connect_semantic_model_def connect_open_def
        remap_body_def commit_def try_except_def try_finally_def exec_defs
        split: sum.splits option.splits)
qed


lemma sample_partitions:
  "ds \<noteq> ''Budget'' \<Longrightarrow>
   list_partitions (sample_env a) ds ''WS''
     = Inr \<lparr>columns = [''Mode''], rows = [[(''Mode'', PStr ''DirectLake'')]]\<rparr>"
  by (simp add: sample_env_def)


text \<open>
  Claim C7. Once the read-write connection is open, it is released exactly once, as the
  last step of the run, on every path: whether the shared expression cannot be obtained,
  the assignment raises, the commit is refused or all goes well. Everything done with
  the connection lies between the opening and the release. On the path where the
  assignment raises, the error line is printed, the unchanged model is committed and the
  connection is released.
\<close>

theorem remap_connection_released_on_every_path:
  assumes "remap_prelude env dataset workspace lakehouse lakehouse_workspace w0
             = (Inr (ws, lh, lhws), w1)"
    and "list_partitions env dataset ws = Inr dfP"
    and "''Mode'' \<in> set (columns dfP)"
    and "\<not> list_all (\<lambda>r. map_of r ''Mode'' \<noteq> Some (PStr ''DirectLake'')) (rows dfP)"
    and "map_of (models w1) (ws, dataset) = Some m"
  shows "\<exists>pre mid.
           new_events (update_direct_lake_model_lakehouse_connection env dataset workspace
                         lakehouse lakehouse_workspace) w0
             = pre @ [ListPartitions dataset ws, Connect dataset False ws] @ mid
                 @ [Release dataset ws]
         \<and> filter is_mutation pre = [] \<and> filter is_scope_event pre = []
         \<and> filter is_scope_event mid = []
         \<and> (\<forall>shEx e. get_shared_expression env lh lhws = Inr shEx
               \<longrightarrow> set_expression m ''DatabaseQuery'' shEx = Inl e
               \<longrightarrow> mid = [GetSharedExpression lh lhws, SetExpression ''DatabaseQuery'' shEx,
                           Print (msg_error dataset), SaveChanges dataset ws])"
proof -
  let ?run = "update_direct_lake_model_lakehouse_connection env dataset workspace lakehouse
                lakehouse_workspace"
  from prelude_world[OF assms(1)] obtain pre where pre: "log w1 = log w0 @ pre"
    "list_all (\<lambda>ev. \<not> is_mutation ev \<and> \<not> is_scope_event ev) pre"
    by blast
  have quiet: "filter is_mutation pre = []" "filter is_scope_event pre = []"
    using pre(2) by (auto simp: list_all_iff filter_empty_conv)
  have run: "?run w0 = remap_resolved env dataset ws lh lhws w1"
    using update_after_prelude[OF assms(1)] .
  note core = remap_resolved_direct_lake[OF assms(2-5), of lh lhws]
  have "\<exists>mid. log (snd (?run w0)) =
            log w1 @ [ListPartitions dataset ws, Connect dataset False ws] @ mid
              @ [Release dataset ws]
         \<and> filter is_scope_event mid = []
         \<and> (\<forall>shEx e. get_shared_expression env lh lhws = Inr shEx
               \<longrightarrow> set_expression m ''DatabaseQuery'' shEx = Inl e
               \<longrightarrow> mid = [GetSharedExpression lh lhws, SetExpression ''DatabaseQuery'' shEx,
                           Print (msg_error dataset), SaveChanges dataset ws])"
  proof (cases "get_shared_expression env lh lhws")
    case (Inl e)
    then have "log (snd (?run w0)) =
            log w1 @ [ListPartitions dataset ws, Connect dataset False ws]
              @ [GetSharedExpression lh lhws] @ [Release dataset ws]"
      using core run by simp
    then show ?thesis using Inl by (intro exI[of _ "[GetSharedExpression lh lhws]"]) simp
  next
    case (Inr shEx)
    let ?msg = "case set_expression m ''DatabaseQuery'' shEx of
                  Inl e \<Rightarrow> msg_error dataset | Inr m' \<Rightarrow> msg_updated dataset lh lhws"
    let ?mid = "[GetSharedExpression lh lhws, SetExpression ''DatabaseQuery'' shEx,
                 Print ?msg, SaveChanges dataset ws]"
    have "log (snd (?run w0)) =
            log w1 @ [ListPartitions dataset ws, Connect dataset False ws] @ ?mid
              @ [Release dataset ws]"
      using core run Inr by (auto simp: Let_def split: sum.splits option.splits)
    then show ?thesis using Inr by (intro exI[of _ ?mid]) auto
  qed
  then obtain mid where mid: "log (snd (?run w0)) =
            log w0 @ (pre @ [ListPartitions dataset ws, Connect dataset False ws] @ mid
              @ [Release dataset ws])"
       "filter is_scope_event mid = []"
       "\<forall>shEx e. get_shared_expression env lh lhws = Inr shEx
               \<longrightarrow> set_expression m ''DatabaseQuery'' shEx = Inl e
               \<longrightarrow> mid = [GetSharedExpression lh lhws, SetExpression ''DatabaseQuery'' shEx,
                           Print (msg_error dataset), SaveChanges dataset ws]"
    using pre(1) by auto
  have "new_events ?run w0 = pre @ [ListPartitions dataset ws, Connect dataset False ws] @ mid
              @ [Release dataset ws]"
    using mid(1) by (rule new_events_append)
  with quiet mid(2,3) show ?thesis by blast
qed

theorem remap_connection_released_on_every_path_witness:
  "\<exists>pre mid.
     new_events (update_direct_lake_model_lakehouse_connection (sample_env (Inr shared_expr))
                   ''Bare'' (Some ''WS'') (Some ''LH'') None) sample_world
       = pre @ [ListPartitions ''Bare'' ''WS'', Connect ''Bare'' False ''WS''] @ mid
           @ [Release ''Bare'' ''WS'']
     \<and> filter is_mutation pre = [] \<and> filter is_scope_event pre = []
     \<and> filter is_scope_event mid = []
     \<and> mid = [GetSharedExpression ''LH'' ''WS'', SetExpression ''DatabaseQuery'' shared_expr,
              Print (msg_error ''Bare''), SaveChanges ''Bare'' ''WS'']"
proof -
  let ?env = "sample_env (Inr shared_expr)"
  let ?w1 = "sample_world\<lparr>log := [ResolveWorkspaceId ''WS'', ListItems ''WS'' ''Lakehouse'']\<rparr>"
  have col: "''Mode'' \<in> set (columns \<lparr>columns = [''Mode''],
                                       rows = [[(''Mode'', PStr ''DirectLake'')]]\<rparr>)"
    by simp
  have dl: "\<not> list_all (\<lambda>r. map_of r ''Mode'' \<noteq> Some (PStr ''DirectLake''))
                (rows \<lparr>columns = [''Mode''], rows = [[(''Mode'', PStr ''DirectLake'')]]\<rparr>)"
    by simp
  have m3: "map_of (models ?w1) (''WS'', ''Bare'')
              = Some \<lparr>expressions = [(''Other'', PStr ''x'')]\<rparr>"
    by (simp add: sample_world_def)
  have p3: "list_partitions ?env ''Bare'' ''WS''
     = Inr \<lparr>columns = [''Mode''], rows = [[(''Mode'', PStr ''DirectLake'')]]\<rparr>"
    by (rule sample_partitions) simp
  have sh: "get_shared_expression ?env ''LH'' ''WS'' = Inr shared_expr"
    by (simp add: sample_env_def)
  have fails: "set_expression \<lparr>expressions = [(''Other'', PStr ''x'')]\<rparr> ''DatabaseQuery'' shared_expr
                 = Inl (KeyError ''DatabaseQuery'')"
    by (simp add: set_expression_def)
  from remap_connection_released_on_every_path[OF sample_prelude p3 col dl m3]
  obtain pre mid where
    "new_events (update_direct_lake_model_lakehouse_connection ?env
                   ''Bare'' (Some ''WS'') (Some ''LH'') None) sample_world
       = pre @ [ListPartitions ''Bare'' ''WS'', Connect ''Bare'' False ''WS''] @ mid
           @ [Release ''Bare'' ''WS'']"
    "filter is_mutation pre = []" "filter is_scope_event pre = []"
    "filter is_scope_event mid = []"
    "\<forall>shEx e. get_shared_expression ?env ''LH'' ''WS'' = Inr shEx
        \<longrightarrow> set_expression \<lparr>expressions = [(''Other'', PStr ''x'')]\<rparr> ''DatabaseQuery'' shEx = Inl e
        \<longrightarrow> mid = [GetSharedExpression ''LH'' ''WS'', SetExpression ''DatabaseQuery'' shEx,
                    Print (msg_error ''Bare''), SaveChanges ''Bare'' ''WS'']"
    by blast
  with sh fails show ?thesis by blast
qed

subsection \<open>What is resolved before a request\<close>
























end
